theory Spec2Isabelle
  imports Main "HOL-Library.Word"
begin

section \<open>The GPString pretty-printer for the debugger (tools/gpstring.py)\<close>

text \<open>
  The script is a plugin of an interactive debugger. It defines a formatter class
  \<^verbatim>\<open>GPStringPrinter\<close>, two lookup callbacks and two registration statements. Everything
  it computes is computed through the scripting interface of the host debugger, which
  is not part of the repository: the host appears here as the record \<open>host\<close> (symbol
  table, debuggee memory, the rendering of values) and as the operations of its value
  handles, modelled after the documented behaviour of that interface.
\<close>

subsection \<open>Faults\<close>

text \<open>Every exception that the script can meet is a value; \<open>Inl\<close> carries it.\<close>

datatype fault =
    NameError string           \<comment> \<open>a name bound neither in the module nor in the builtins\<close>
  | AttributeError string
  | TypeError string
  | GdbError string            \<comment> \<open>the host's general error\<close>
  | MemoryError nat            \<comment> \<open>the host could not read the debuggee at this address\<close>
  | UnicodeDecodeError

definition and_then :: "fault + 'a \<Rightarrow> ('a \<Rightarrow> fault + 'b) \<Rightarrow> fault + 'b" where
  "and_then r k = (case r of Inl e \<Rightarrow> Inl e | Inr x \<Rightarrow> k x)"

subsection \<open>Types and value handles of the host\<close>

type_synonym addr = "64 word"
type_synonym byte = "8 word"

text \<open>
  A type of the debuggee is known by its name and size, or is a pointer to another type
  (\<^verbatim>\<open>Type.pointer()\<close>). Typedef names and qualified spellings such as
  \<^verbatim>\<open>const GPString\<close> are names. Addresses are 64-bit and wrap around.
\<close>

datatype gdb_type = Named string nat | Pointer gdb_type

fun type_str :: "gdb_type \<Rightarrow> string" where
  "type_str (Named n s) = n"
| "type_str (Pointer t) = type_str t @ '' *''"

fun sizeof :: "gdb_type \<Rightarrow> nat" where
  "sizeof (Named n s) = s"
| "sizeof (Pointer t) = 8"

definition pointer :: "gdb_type \<Rightarrow> gdb_type" where
  "pointer t = Pointer t"

text \<open>
  A value handle is either a scalar (a pointer or an integer, whose numeric content the
  debugger knows) or an object that lives in the memory of the debuggee at an address
  and is fetched when its contents are used.
\<close>

datatype gdb_value = Scalar gdb_type addr | Object gdb_type addr

fun value_type :: "gdb_value \<Rightarrow> gdb_type" where
  "value_type (Scalar t a) = t"
| "value_type (Object t a) = t"

subsection \<open>The formatter class\<close>

text \<open>
  \<^verbatim>\<open>class GPStringPrinter(): def __init__(self, val): self.val = val\<close>
\<close>

record GPStringPrinter =
  val :: gdb_value

definition GPStringPrinter_init :: "gdb_value \<Rightarrow> GPStringPrinter" where
  "GPStringPrinter_init v = \<lparr>val = v\<rparr>"

subsection \<open>Names and their resolution\<close>

text \<open>
  The objects that names of the module can be bound to: the host's module, the class and
  the two functions that the script defines, a builtin, or an object that did not come
  from this script.
\<close>

datatype pyobj =
    GdbModule
  | GPStringPrinterClass
  | GpStrLookupFunction
  | GpConstStrLookupFunction
  | Builtin string
  | Foreign nat

datatype pyvalue = PyNone | Formatter GPStringPrinter | Obj pyobj

type_synonym namespace = "string \<rightharpoonup> pyobj"

text \<open>The names of the builtins scope of the interpreter.\<close>

definition builtin_names :: "string list" where
  "builtin_names =
    [''abs'', ''aiter'', ''all'', ''anext'', ''any'', ''ascii'', ''bin'', ''bool'',
     ''breakpoint'', ''bytearray'', ''bytes'', ''callable'', ''chr'', ''classmethod'',
     ''compile'', ''complex'', ''copyright'', ''credits'', ''delattr'', ''dict'', ''dir'',
     ''divmod'', ''enumerate'', ''eval'', ''exec'', ''exit'', ''filter'', ''float'',
     ''format'', ''frozenset'', ''getattr'', ''globals'', ''hasattr'', ''hash'', ''help'',
     ''hex'', ''id'', ''input'', ''int'', ''isinstance'', ''issubclass'', ''iter'', ''len'',
     ''license'', ''list'', ''locals'', ''map'', ''max'', ''memoryview'', ''min'', ''next'',
     ''object'', ''oct'', ''open'', ''ord'', ''pow'', ''print'', ''property'', ''quit'',
     ''range'', ''repr'', ''reversed'', ''round'', ''set'', ''setattr'', ''slice'',
     ''sorted'', ''staticmethod'', ''str'', ''sum'', ''super'', ''tuple'', ''type'',
     ''vars'', ''zip'', ''__import__'', ''__build_class__'', ''__debug__'', ''__doc__'',
     ''__loader__'', ''__name__'', ''__package__'', ''__spec__'',
     ''None'', ''True'', ''False'', ''Ellipsis'', ''NotImplemented'',
     ''ArithmeticError'', ''AssertionError'', ''AttributeError'', ''BaseException'',
     ''BaseExceptionGroup'', ''BlockingIOError'', ''BrokenPipeError'', ''BufferError'',
     ''BytesWarning'', ''ChildProcessError'', ''ConnectionAbortedError'',
     ''ConnectionError'', ''ConnectionRefusedError'', ''ConnectionResetError'',
     ''DeprecationWarning'', ''EOFError'', ''EncodingWarning'', ''EnvironmentError'',
     ''Exception'', ''ExceptionGroup'', ''FileExistsError'', ''FileNotFoundError'',
     ''FloatingPointError'', ''FutureWarning'', ''GeneratorExit'', ''IOError'',
     ''ImportError'', ''ImportWarning'', ''IndentationError'', ''IndexError'',
     ''InterruptedError'', ''IsADirectoryError'', ''KeyError'', ''KeyboardInterrupt'',
     ''LookupError'', ''MemoryError'', ''ModuleNotFoundError'', ''NameError'',
     ''NotADirectoryError'', ''NotImplementedError'', ''OSError'', ''OverflowError'',
     ''PendingDeprecationWarning'', ''PermissionError'', ''ProcessLookupError'',
     ''PythonFinalizationError'', ''RecursionError'', ''ReferenceError'',
     ''ResourceWarning'', ''RuntimeError'', ''RuntimeWarning'', ''StopAsyncIteration'',
     ''StopIteration'', ''SyntaxError'', ''SyntaxWarning'', ''SystemError'',
     ''SystemExit'', ''TabError'', ''TimeoutError'', ''TypeError'',
     ''UnboundLocalError'', ''UnicodeDecodeError'', ''UnicodeEncodeError'',
     ''UnicodeError'', ''UnicodeTranslateError'', ''UnicodeWarning'', ''UserWarning'',
     ''ValueError'', ''Warning'', ''ZeroDivisionError'']"

text \<open>
  A global name is looked up in the namespace of the module, then in the builtins; a name
  found in neither raises \<^verbatim>\<open>NameError\<close>.
\<close>

definition resolve :: "namespace \<Rightarrow> string \<Rightarrow> fault + pyobj" where
  "resolve g n =
     (case g n of
        Some c \<Rightarrow> Inr c
      | None \<Rightarrow> if n \<in> set builtin_names then Inr (Builtin n) else Inl (NameError n))"

text \<open>
  Calling an object with one argument. Calling the class runs \<^verbatim>\<open>__init__\<close> and gives
  the new formatter. What a call of any other object does is decided outside the class
  definition: it is the parameter \<open>ext\<close>.
\<close>

definition call_obj ::
  "(pyobj \<Rightarrow> gdb_value \<Rightarrow> fault + pyvalue) \<Rightarrow> pyobj \<Rightarrow> gdb_value \<Rightarrow> fault + pyvalue" where
  "call_obj ext c v =
     (case c of
        GPStringPrinterClass \<Rightarrow> Inr (Formatter (GPStringPrinter_init v))
      | _ \<Rightarrow> ext c v)"

subsection \<open>The lookup callbacks\<close>

text \<open>
  \<^verbatim>\<open>def gp_str_lookup_function(val):
    if str(val.type) == "GPString":
        return StringPrinter(val)
    return None\<close>

  The name \<^verbatim>\<open>StringPrinter\<close> is a global of the module, resolved when the branch runs;
  \<open>g\<close> is the namespace of the module at the time of the call.
\<close>

definition gp_str_lookup_function ::
  "(pyobj \<Rightarrow> gdb_value \<Rightarrow> fault + pyvalue) \<Rightarrow> namespace \<Rightarrow> gdb_value \<Rightarrow> fault + pyvalue" where
  "gp_str_lookup_function ext g v =
     (if type_str (value_type v) = ''GPString''
      then and_then (resolve g ''StringPrinter'') (\<lambda>c. call_obj ext c v)
      else Inr PyNone)"

text \<open>
  \<^verbatim>\<open>def gp_const_str_lookup_function(val):
    if str(val.type) == "const GPString":
        return StringPrinter(val)
    return None\<close>
\<close>

definition gp_const_str_lookup_function ::
  "(pyobj \<Rightarrow> gdb_value \<Rightarrow> fault + pyvalue) \<Rightarrow> namespace \<Rightarrow> gdb_value \<Rightarrow> fault + pyvalue" where
  "gp_const_str_lookup_function ext g v =
     (if type_str (value_type v) = ''const GPString''
      then and_then (resolve g ''StringPrinter'') (\<lambda>c. call_obj ext c v)
      else Inr PyNone)"

subsection \<open>Loading the script\<close>

text \<open>
  The state that loading the script acts on: the namespace of the module and the host's
  global list \<^verbatim>\<open>gdb.pretty_printers\<close>.
\<close>

record session =
  globals :: namespace
  pretty_printers :: "pyobj list"

text \<open>
  Lines 1 to 26: the two imports (both bind the name \<^verbatim>\<open>gdb\<close>; inside the host they
  succeed), the class statement and the two function definitions, in this order.
\<close>

definition definitions :: "namespace \<Rightarrow> namespace" where
  "definitions g =
     g(''gdb'' \<mapsto> GdbModule,
       ''gdb'' \<mapsto> GdbModule,
       ''GPStringPrinter'' \<mapsto> GPStringPrinterClass,
       ''gp_str_lookup_function'' \<mapsto> GpStrLookupFunction,
       ''gp_const_str_lookup_function'' \<mapsto> GpConstStrLookupFunction)"

text \<open>
  A statement \<^verbatim>\<open>gdb.pretty_printers.append(name)\<close>: the callee is evaluated first, then
  the argument, then the list grows by one. A statement that raises leaves the session as
  it was before the statement; the fault is returned with that session.
\<close>

definition register :: "string \<Rightarrow> session \<Rightarrow> (fault \<times> session) + session" where
  "register name s =
     (case resolve (globals s) ''gdb'' of
        Inl e \<Rightarrow> Inl (e, s)
      | Inr m \<Rightarrow>
          if m \<noteq> GdbModule then Inl (AttributeError ''pretty_printers'', s)
          else (case resolve (globals s) name of
                  Inl e \<Rightarrow> Inl (e, s)
                | Inr f \<Rightarrow> Inr (s\<lparr>pretty_printers := pretty_printers s @ [f]\<rparr>)))"

text \<open>The whole file: the definitions, then lines 28 and 29.\<close>

definition load_script :: "session \<Rightarrow> (fault \<times> session) + session" where
  "load_script s =
     (case register ''str_lookup_function'' (s\<lparr>globals := definitions (globals s)\<rparr>) of
        Inl x \<Rightarrow> Inl x
      | Inr s1 \<Rightarrow> register ''const_str_lookup_function'' s1)"

subsection \<open>The host: symbol table, memory, rendering\<close>

text \<open>
  \<open>lookup_type\<close> is \<^verbatim>\<open>gdb.lookup_type\<close>; \<open>memory\<close> is the readable memory of the
  debuggee; \<open>field_of\<close> reads a named field out of the bytes of an object of a type;
  \<open>format_object\<close> and \<open>format_scalar\<close> give the default text of a value
  (\<^verbatim>\<open>str(value)\<close>). The layout of the header record is declared elsewhere and is
  opaque to the script, so the last three are parameters.
\<close>

record host =
  lookup_type :: "string \<Rightarrow> fault + gdb_type"
  memory :: "addr \<rightharpoonup> byte"
  field_of :: "gdb_type \<Rightarrow> byte list \<Rightarrow> string \<Rightarrow> fault + nat"
  format_object :: "gdb_type \<Rightarrow> byte list \<Rightarrow> fault + string"
  format_scalar :: "gdb_type \<Rightarrow> addr \<Rightarrow> fault + string"

text \<open>Reading \<open>n\<close> bytes at an address; an unreadable byte is a memory error.\<close>

fun read_memory :: "(addr \<rightharpoonup> byte) \<Rightarrow> addr \<Rightarrow> nat \<Rightarrow> fault + byte list" where
  "read_memory m a 0 = Inr []"
| "read_memory m a (Suc n) =
     (case m a of
        None \<Rightarrow> Inl (MemoryError (unat a))
      | Some b \<Rightarrow> and_then (read_memory m (a + 1) n) (\<lambda>bs. Inr (b # bs)))"

text \<open>\<^verbatim>\<open>Value.cast\<close>: a scalar keeps its content under the new type.\<close>

fun cast :: "gdb_value \<Rightarrow> gdb_type \<Rightarrow> fault + gdb_value" where
  "cast (Scalar t a) T = Inr (Scalar T a)"
| "cast (Object t a) T = Inl (GdbError ''Invalid cast.'')"

text \<open>
  \<^verbatim>\<open>value - n\<close>: on a pointer, \<open>n\<close> elements of the target type back, in the address
  arithmetic of the machine.
\<close>

fun value_sub :: "gdb_value \<Rightarrow> nat \<Rightarrow> fault + gdb_value" where
  "value_sub (Scalar (Pointer T) a) n = Inr (Scalar (Pointer T) (a - of_nat (n * sizeof T)))"
| "value_sub (Scalar (Named nm s) a) n = Inr (Scalar (Named nm s) (a - of_nat n))"
| "value_sub (Object t a) n =
     Inl (GdbError ''Argument to arithmetic operation not a number or boolean.'')"

text \<open>\<^verbatim>\<open>Value.dereference\<close>: the object a pointer points to; nothing is read yet.\<close>

fun dereference :: "gdb_value \<Rightarrow> fault + gdb_value" where
  "dereference (Scalar (Pointer T) a) = Inr (Object T a)"
| "dereference (Scalar (Named nm s) a) =
     Inl (GdbError ''Attempt to take contents of a non-pointer value.'')"
| "dereference (Object t a) =
     Inl (GdbError ''Attempt to take contents of a non-pointer value.'')"

text \<open>\<^verbatim>\<open>value[name]\<close> read as a number: the object is fetched, the field read.\<close>

fun getitem :: "host \<Rightarrow> gdb_value \<Rightarrow> string \<Rightarrow> fault + nat" where
  "getitem h (Object T a) name =
     and_then (read_memory (memory h) a (sizeof T)) (\<lambda>bs. field_of h T bs name)"
| "getitem h (Scalar t a) name =
     Inl (GdbError ''Attempt to extract a component of a value that is not a structure.'')"

text \<open>\<^verbatim>\<open>str(value)\<close>.\<close>

fun value_str :: "host \<Rightarrow> gdb_value \<Rightarrow> fault + string" where
  "value_str h (Object T a) =
     and_then (read_memory (memory h) a (sizeof T)) (format_object h T)"
| "value_str h (Scalar t a) = format_scalar h t a"

subsection \<open>Text: UTF-8 decoding and the \<^verbatim>\<open>unicode_escape\<close> codec\<close>

text \<open>
  A decoded text is its list of code points. The strict UTF-8 decoder rejects stray and
  missing continuation bytes, overlong forms, surrogates and code points above
  \<open>0x10FFFF\<close>.
\<close>

definition is_cont :: "nat \<Rightarrow> bool" where
  "is_cont b = (0x80 \<le> b \<and> b < 0xC0)"

fun utf8_decode :: "nat list \<Rightarrow> nat list option" where
  "utf8_decode [] = Some []"
| "utf8_decode (b0 # bs) =
     (if b0 < 0x80 then map_option ((#) b0) (utf8_decode bs)
      else if 0xC2 \<le> b0 \<and> b0 < 0xE0 then
        (case bs of
           b1 # r \<Rightarrow>
             if is_cont b1
             then map_option ((#) ((b0 - 0xC0) * 64 + (b1 - 0x80))) (utf8_decode r)
             else None
         | _ \<Rightarrow> None)
      else if 0xE0 \<le> b0 \<and> b0 < 0xF0 then
        (case bs of
           b1 # b2 # r \<Rightarrow>
             (let cp = (b0 - 0xE0) * 4096 + (b1 - 0x80) * 64 + (b2 - 0x80) in
              if is_cont b1 \<and> is_cont b2 \<and> 0x800 \<le> cp \<and> \<not> (0xD800 \<le> cp \<and> cp < 0xE000)
              then map_option ((#) cp) (utf8_decode r)
              else None)
         | _ \<Rightarrow> None)
      else if 0xF0 \<le> b0 \<and> b0 < 0xF5 then
        (case bs of
           b1 # b2 # b3 # r \<Rightarrow>
             (let cp = (b0 - 0xF0) * 262144 + (b1 - 0x80) * 4096 + (b2 - 0x80) * 64
                       + (b3 - 0x80) in
              if is_cont b1 \<and> is_cont b2 \<and> is_cont b3 \<and> 0x10000 \<le> cp \<and> cp < 0x110000
              then map_option ((#) cp) (utf8_decode r)
              else None)
         | _ \<Rightarrow> None)
      else None)"

text \<open>
  \<^verbatim>\<open>Value.string("utf-8", length = n)\<close> on a character pointer: exactly \<open>n\<close> bytes are
  read at the address the pointer holds and decoded.
\<close>

fun value_string :: "host \<Rightarrow> gdb_value \<Rightarrow> nat \<Rightarrow> fault + nat list" where
  "value_string h (Scalar (Pointer T) a) n =
     (if sizeof T = 1
      then and_then (read_memory (memory h) a n)
             (\<lambda>bs. case utf8_decode (map unat bs) of
                      None \<Rightarrow> Inl UnicodeDecodeError
                    | Some cps \<Rightarrow> Inr cps)
      else Inl (GdbError ''Trying to read string with inappropriate type.''))"
| "value_string h (Scalar (Named nm s) a) n =
     Inl (GdbError ''Trying to read string with inappropriate type.'')"
| "value_string h (Object t a) n =
     Inl (GdbError ''Trying to read string with inappropriate type.'')"

text \<open>
  \<^verbatim>\<open>str.encode("unicode_escape").decode()\<close>: printable ASCII is copied, the backslash
  is doubled, tab, newline and carriage return get their letter, every other code point
  is written in lower-case hexadecimal with two, four or eight digits. The result is
  ASCII.
\<close>

definition hexdigit :: "nat \<Rightarrow> char" where
  "hexdigit n = ''0123456789abcdef'' ! (n mod 16)"

fun hex :: "nat \<Rightarrow> nat \<Rightarrow> string" where
  "hex 0 n = []"
| "hex (Suc w) n = hex w (n div 16) @ [hexdigit n]"

definition escape_char :: "nat \<Rightarrow> string" where
  "escape_char ch =
     (if ch < 0x100 then
        (if 0x20 \<le> ch \<and> ch < 127 then
           (if ch \<noteq> 0x5C then [char_of ch] else [CHR 0x5C, CHR 0x5C])
         else if ch = 9 then [CHR 0x5C, CHR ''t'']
         else if ch = 10 then [CHR 0x5C, CHR ''n'']
         else if ch = 13 then [CHR 0x5C, CHR ''r'']
         else [CHR 0x5C, CHR ''x''] @ hex 2 ch)
      else if ch < 0x10000 then [CHR 0x5C, CHR ''u''] @ hex 4 ch
      else [CHR 0x5C, CHR ''U''] @ hex 8 ch)"

definition unicode_escape :: "nat list \<Rightarrow> string" where
  "unicode_escape cps = concat (map escape_char cps)"

text \<open>
  Two reference notions for the text functions. \<open>utf8_encode\<close> is the UTF-8 encoding
  of a list of code points (\<^verbatim>\<open>str.encode("utf-8")\<close>), defined on the scalar values:
  the code points up to \<open>0x10FFFF\<close> that are not surrogates. \<open>printable_ascii\<close> holds
  of the characters from space to tilde.
\<close>

definition utf8_encode_char :: "nat \<Rightarrow> nat list" where
  "utf8_encode_char cp =
     (if cp < 0x80 then [cp]
      else if cp < 0x800 then [0xC0 + cp div 64, 0x80 + cp mod 64]
      else if cp < 0x10000 then
        [0xE0 + cp div 4096, 0x80 + (cp div 64) mod 64, 0x80 + cp mod 64]
      else [0xF0 + cp div 262144, 0x80 + (cp div 4096) mod 64, 0x80 + (cp div 64) mod 64,
            0x80 + cp mod 64])"

definition utf8_encode :: "nat list \<Rightarrow> nat list" where
  "utf8_encode cps = concat (map utf8_encode_char cps)"

definition is_scalar_value :: "nat \<Rightarrow> bool" where
  "is_scalar_value cp = (cp < 0x110000 \<and> \<not> (0xD800 \<le> cp \<and> cp < 0xE000))"

definition printable_ascii :: "char \<Rightarrow> bool" where
  "printable_ascii c = (0x20 \<le> (of_char c :: nat) \<and> (of_char c :: nat) < 0x7F)"

subsection \<open>The formatter\<close>

text \<open>
  \<^verbatim>\<open>def to_string(self):
    T_str_data      = gdb.lookup_type("GPStringHeader")
    val_as_data_ptr = self.val.cast(T_str_data.pointer())
    str_data        = (val_as_data_ptr - 1).dereference()
    T_cstr       = gdb.lookup_type("char").pointer()
    val_contents = self.val.cast(T_cstr).string("utf-8", length = str_data["length"])
    val_contents = str(val_contents).encode("unicode_escape").decode()
    return "\"" + val_contents + "\", " + str(str_data)\<close>

  The calls are made in the order of the source; the first fault ends the method.
\<close>

definition to_string :: "host \<Rightarrow> GPStringPrinter \<Rightarrow> fault + string" where
  "to_string h self =
     and_then (lookup_type h ''GPStringHeader'') (\<lambda>T_str_data.
     and_then (cast (val self) (pointer T_str_data)) (\<lambda>val_as_data_ptr.
     and_then (value_sub val_as_data_ptr 1) (\<lambda>before.
     and_then (dereference before) (\<lambda>str_data.
     and_then (lookup_type h ''char'') (\<lambda>T_char.
     and_then (cast (val self) (pointer T_char)) (\<lambda>as_cstr.
     and_then (getitem h str_data ''length'') (\<lambda>len.
     and_then (value_string h as_cstr len) (\<lambda>val_contents.
     and_then (value_str h str_data) (\<lambda>header_text.
       Inr ([CHR 0x22] @ unicode_escape val_contents @ [CHR 0x22] @ '', '' @ header_text))))))))))"

subsection \<open>Example sessions\<close>

text \<open>
  A debuggee whose memory holds a header record and, immediately after it, the payload.
  \<open>place base bs\<close> is the memory that has the bytes \<open>bs\<close> at \<open>base\<close> and nothing
  else. In \<open>example_host\<close> the header is eight bytes at \<open>0xFF8\<close>, its first byte is the
  length field, and the payload starts at \<open>0x1000\<close>.
\<close>

definition place :: "addr \<Rightarrow> byte list \<Rightarrow> (addr \<rightharpoonup> byte)" where
  "place base bs =
     (\<lambda>a. if unat (a - base) < length bs then Some (bs ! unat (a - base)) else None)"

definition example_host :: "byte list \<Rightarrow> host" where
  "example_host payload =
     \<lparr>lookup_type = (\<lambda>n. if n = ''GPStringHeader'' then Inr (Named ''GPStringHeader'' 8)
                         else if n = ''char'' then Inr (Named ''char'' 1)
                         else Inl (GdbError (''No type named '' @ n @ ''.''))),
      memory = place 0xFF8 ([of_nat (length payload), 0, 0, 0, 0, 0, 0, 0] @ payload),
      field_of = (\<lambda>T bs n. case bs of
                     b # rest \<Rightarrow> if n = ''length'' then Inr (unat b)
                                 else Inl (GdbError (''There is no member named '' @ n @ ''.''))
                   | [] \<Rightarrow> Inl (GdbError (''There is no member named '' @ n @ ''.''))),
      format_object = (\<lambda>T bs. Inr ''{...}''),
      format_scalar = (\<lambda>T a. Inr ''0x...'')\<rparr>"

definition example_printer :: GPStringPrinter where
  "example_printer = GPStringPrinter_init (Scalar (Named ''GPString'' 8) 0x1000)"

text \<open>An interpreter in which nothing but the class can be called.\<close>

definition not_callable :: "pyobj \<Rightarrow> gdb_value \<Rightarrow> fault + pyvalue" where
  "not_callable c v = Inl (TypeError ''object is not callable'')"

text \<open>The namespace of the script after its definitions, started from an empty module.\<close>

definition script_globals :: namespace where
  "script_globals = definitions Map.empty"

section \<open>Properties\<close>

subsection \<open>Auxiliary facts\<close>

lemma and_then_Inr [simp]: "and_then (Inr x) k = k x"
  by (simp add: and_then_def)

lemma and_then_Inl [simp]: "and_then (Inl e) k = Inl e"
  by (simp add: and_then_def)

lemma not_builtin_StringPrinter: "''StringPrinter'' \<notin> set builtin_names"
  by (simp add: builtin_names_def)

lemma not_builtin_str_lookup_function: "''str_lookup_function'' \<notin> set builtin_names"
  by (simp add: builtin_names_def)

lemma not_builtin_const_str_lookup_function:
  "''const_str_lookup_function'' \<notin> set builtin_names"
  by (simp add: builtin_names_def)

lemma resolve_StringPrinter_unbound:
  "g ''StringPrinter'' = None \<Longrightarrow> resolve g ''StringPrinter'' = Inl (NameError ''StringPrinter'')"
  by (simp add: resolve_def not_builtin_StringPrinter)

lemma definitions_StringPrinter: "definitions g ''StringPrinter'' = g ''StringPrinter''"
  by (simp add: definitions_def)

lemma register_unbound:
  assumes "globals s ''gdb'' = Some GdbModule" and "globals s n = None"
    and "n \<notin> set builtin_names"
  shows "register n s = Inl (NameError n, s)"
  using assms by (simp add: register_def resolve_def)

lemma dom_definitions:
  "dom (definitions g) =
     dom g \<union> {''gdb'', ''GPStringPrinter'', ''gp_str_lookup_function'',
               ''gp_const_str_lookup_function''}"
  by (auto simp: definitions_def)

lemma read_memory_length: "read_memory m a n = Inr bs \<Longrightarrow> length bs = n"
proof (induction n arbitrary: a bs)
  case 0
  then show ?case by simp
next
  case (Suc n)
  then show ?case
    by (auto simp: and_then_def split: option.splits sum.splits)
qed

lemma read_memory_agree:
  "(\<And>i. i < n \<Longrightarrow> m' (a + of_nat i) = m (a + of_nat i))
     \<Longrightarrow> read_memory m' a n = read_memory m a n"
proof (induction n arbitrary: a)
  case 0
  then show ?case by simp
next
  case (Suc n)
  have here: "m' a = m a"
    using Suc.prems [of 0] by simp
  have "\<And>i. i < n \<Longrightarrow> m' (a + 1 + of_nat i) = m (a + 1 + of_nat i)"
    using Suc.prems [of "Suc i" for i] by (simp add: add.assoc)
  then have "read_memory m' (a + 1) n = read_memory m (a + 1) n"
    by (rule Suc.IH)
  with here show ?case by (simp split: option.splits)
qed

lemma to_string_pointer:
  assumes "val self = Scalar ty a"
    and "lookup_type h ''GPStringHeader'' = Inr T"
  shows "to_string h self =
     and_then (lookup_type h ''char'') (\<lambda>C.
     and_then (getitem h (Object T (a - of_nat (sizeof T))) ''length'') (\<lambda>len.
     and_then (value_string h (Scalar (Pointer C) a) len) (\<lambda>cps.
     and_then (value_str h (Object T (a - of_nat (sizeof T)))) (\<lambda>txt.
       Inr ([CHR 0x22] @ unicode_escape cps @ [CHR 0x22] @ '', '' @ txt)))))"
  using assms by (simp add: to_string_def pointer_def)

lemma to_string_fetched:
  assumes "val self = Scalar ty a"
    and "lookup_type h ''GPStringHeader'' = Inr T"
    and "lookup_type h ''char'' = Inr C" and "sizeof C = 1"
    and "read_memory (memory h) (a - of_nat (sizeof T)) (sizeof T) = Inr hdr"
    and "field_of h T hdr ''length'' = Inr L"
  shows "to_string h self =
     and_then (read_memory (memory h) a L) (\<lambda>bs.
       case utf8_decode (map unat bs) of
         None \<Rightarrow> Inl UnicodeDecodeError
       | Some cps \<Rightarrow>
           and_then (format_object h T hdr) (\<lambda>text.
             Inr ([CHR 0x22] @ unicode_escape cps @ [CHR 0x22] @ '', '' @ text)))"
proof (cases "read_memory (memory h) a L")
  case (Inl e)
  with assms show ?thesis by (simp add: to_string_pointer)
next
  case (Inr bs)
  with assms show ?thesis by (simp add: to_string_pointer split: option.splits)
qed

lemma escape_char_quote: "escape_char 0x22 = [CHR 0x22]"
  by code_simp

lemma split3: "(cp::nat) div 4096 * 4096 + cp div 64 mod 64 * 64 + cp mod 64 = cp"
proof -
  have e1: "cp div 64 * 64 + cp mod 64 = cp" by simp
  have e2: "cp div 64 div 64 * 64 + cp div 64 mod 64 = cp div 64" by simp
  have e3: "cp div 64 div 64 = cp div 4096" by (simp add: div_mult2_eq [symmetric])
  have "cp = (cp div 4096 * 64 + cp div 64 mod 64) * 64 + cp mod 64"
    using e1 e2 e3 by metis
  then show ?thesis by (simp add: algebra_simps)
qed

lemma split4: "(cp::nat) div 262144 * 262144 + cp div 4096 mod 64 * 4096 + cp div 64 mod 64 * 64
   + cp mod 64 = cp"
proof -
  have e3: "cp div 4096 div 64 = cp div 262144" by (simp add: div_mult2_eq [symmetric])
  have e4: "cp div 4096 div 64 * 64 + cp div 4096 mod 64 = cp div 4096" by simp
  have "cp div 4096 = cp div 262144 * 64 + cp div 4096 mod 64"
    using e3 e4 by metis
  then have "cp div 4096 * 4096 = cp div 262144 * 262144 + cp div 4096 mod 64 * 4096"
    by (simp add: algebra_simps)
  then show ?thesis using split3 [of cp] by simp
qed

lemma q3: "(cp::nat) < 0x10000 \<Longrightarrow> cp div 4096 < 16"
  by (simp add: div_less_iff_less_mult)

lemma q4: "(cp::nat) < 0x110000 \<Longrightarrow> cp div 262144 < 5"
  by (simp add: div_less_iff_less_mult)

lemma q2: "(cp::nat) < 0x800 \<Longrightarrow> cp div 64 < 32"
  by (simp add: div_less_iff_less_mult)

lemma q2': "0x80 \<le> (cp::nat) \<Longrightarrow> 2 \<le> cp div 64"
  by (simp add: less_eq_div_iff_mult_less_eq)

lemma decode_encode_char:
  assumes "is_scalar_value cp"
  shows "utf8_decode (utf8_encode_char cp @ rest) = map_option ((#) cp) (utf8_decode rest)"
proof -
  consider "cp < 0x80" | "0x80 \<le> cp" "cp < 0x800" | "0x800 \<le> cp" "cp < 0x10000"
    | "0x10000 \<le> cp" "cp < 0x110000"
    using assms unfolding is_scalar_value_def by linarith
  then show ?thesis
  proof cases
    case 1
    then show ?thesis by (simp add: utf8_encode_char_def)
  next
    case 2
    define q r where "q = cp div 64" and "r = cp mod 64"
    have enc: "utf8_encode_char cp = [0xC0 + q, 0x80 + r]"
      using 2 by (simp add: utf8_encode_char_def q_def r_def)
    have q: "2 \<le> q" "q < 32"
      using 2 q2 [of cp] q2' [of cp] by (simp_all add: q_def)
    have r: "r < 64"
      by (simp add: r_def)
    have cp: "q * 64 + r = cp"
      by (simp add: q_def r_def)
    show ?thesis
      unfolding enc using q r cp by (simp add: is_cont_def)
  next
    case 3
    define q r t where "q = cp div 4096" and "r = cp div 64 mod 64" and "t = cp mod 64"
    have enc: "utf8_encode_char cp = [0xE0 + q, 0x80 + r, 0x80 + t]"
      using 3 by (simp add: utf8_encode_char_def q_def r_def t_def)
    have q: "q < 16"
      using 3 q3 [of cp] by (simp add: q_def)
    have r: "r < 64" and t: "t < 64"
      by (simp_all add: r_def t_def)
    have cp: "q * 4096 + r * 64 + t = cp"
      unfolding q_def r_def t_def by (rule split3)
    have ok: "0x800 \<le> cp" "\<not> (0xD800 \<le> cp \<and> cp < 0xE000)"
      using 3 assms by (simp_all add: is_scalar_value_def)
    show ?thesis
      unfolding enc using q r t cp ok by (simp add: is_cont_def)
  next
    case 4
    define q r t u where "q = cp div 262144" and "r = cp div 4096 mod 64"
      and "t = cp div 64 mod 64" and "u = cp mod 64"
    have enc: "utf8_encode_char cp = [0xF0 + q, 0x80 + r, 0x80 + t, 0x80 + u]"
      using 4 by (simp add: utf8_encode_char_def q_def r_def t_def u_def)
    have q: "q < 5"
      using 4 q4 [of cp] by (simp add: q_def)
    have r: "r < 64" and t: "t < 64" and u: "u < 64"
      by (simp_all add: r_def t_def u_def)
    have cp: "q * 262144 + r * 4096 + t * 64 + u = cp"
      unfolding q_def r_def t_def u_def by (rule split4)
    show ?thesis
      unfolding enc using q r t u cp 4 by (simp add: is_cont_def)
  qed
qed

lemma hexdigit_printable: "printable_ascii (hexdigit n)"
proof -
  have "list_all printable_ascii ''0123456789abcdef''"
    by (simp add: printable_ascii_def)
  moreover have "n mod 16 < length ''0123456789abcdef''"
    by simp
  ultimately show ?thesis
    unfolding hexdigit_def list_all_length by blast
qed

lemma hex_printable: "list_all printable_ascii (hex w n)"
  by (induction w arbitrary: n) (simp_all add: hexdigit_printable)

lemma escape_char_printable: "list_all printable_ascii (escape_char ch)"
proof (cases "0x20 \<le> ch \<and> ch < 127")
  case True
  then have "(of_char (char_of ch) :: nat) = ch"
    by simp
  with True show ?thesis
    by (simp add: escape_char_def printable_ascii_def)
next
  case False
  then show ?thesis
    by (auto simp: escape_char_def hex_printable) (simp_all add: printable_ascii_def)
qed

lemma decode_encode_list:
  "list_all is_scalar_value cps \<Longrightarrow> utf8_decode (utf8_encode cps) = Some cps"
proof (induction cps)
  case Nil
  then show ?case by (simp add: utf8_encode_def)
next
  case (Cons cp cps)
  then have "utf8_decode (utf8_encode cps) = Some cps" by simp
  moreover have "is_scalar_value cp" using Cons.prems by simp
  ultimately show ?case
    using decode_encode_char [of cp "utf8_encode cps"] by (simp add: utf8_encode_def)
qed

lemma hex_4:
  "hex 4 n = [hexdigit (n div 16 div 16 div 16), hexdigit (n div 16 div 16),
              hexdigit (n div 16), hexdigit n]"
proof -
  have "hex (Suc (Suc (Suc (Suc 0)))) n = [hexdigit (n div 16 div 16 div 16),
      hexdigit (n div 16 div 16), hexdigit (n div 16), hexdigit n]"
    by simp
  moreover have "(4::nat) = Suc (Suc (Suc (Suc 0)))"
    by simp
  ultimately show ?thesis
    by (simp only:)
qed

subsection \<open>The lookup callbacks\<close>

text \<open>
  C4: a lookup callback returns a formatter only when the rendered type name is exactly
  its spelling: \<open>gp_str_lookup_function\<close> returns the formatter \<open>p\<close> if and only if
  \<^verbatim>\<open>str(val.type)\<close> equals \<^verbatim>\<open>GPString\<close> and the call \<^verbatim>\<open>StringPrinter(val)\<close> gives
  \<open>p\<close>; \<open>gp_const_str_lookup_function\<close> likewise with \<^verbatim>\<open>const GPString\<close>. The
  comparison is equality of strings.
\<close>

theorem lookup_returns_formatter_iff:
  "(gp_str_lookup_function ext g v = Inr (Formatter p) \<longleftrightarrow>
      type_str (value_type v) = ''GPString'' \<and>
      and_then (resolve g ''StringPrinter'') (\<lambda>c. call_obj ext c v) = Inr (Formatter p))
   \<and> (gp_const_str_lookup_function ext g v = Inr (Formatter p) \<longleftrightarrow>
      type_str (value_type v) = ''const GPString'' \<and>
      and_then (resolve g ''StringPrinter'') (\<lambda>c. call_obj ext c v) = Inr (Formatter p))"
  by (simp add: gp_str_lookup_function_def gp_const_str_lookup_function_def)

text \<open>
  In a namespace that binds \<^verbatim>\<open>StringPrinter\<close> to the class, each callback returns the
  formatter for its own spelling and no formatter for the other spelling, for a pointer
  to the type, or for a name that differs in case or spacing.
\<close>

theorem lookup_returns_formatter_iff_witness:
  "gp_str_lookup_function not_callable (script_globals(''StringPrinter'' \<mapsto> GPStringPrinterClass))
       (Scalar (Named ''GPString'' 8) 0x1000)
     = Inr (Formatter \<lparr>val = Scalar (Named ''GPString'' 8) 0x1000\<rparr>)
   \<and> gp_const_str_lookup_function not_callable
         (script_globals(''StringPrinter'' \<mapsto> GPStringPrinterClass))
         (Scalar (Named ''const GPString'' 8) 0x1000)
     = Inr (Formatter \<lparr>val = Scalar (Named ''const GPString'' 8) 0x1000\<rparr>)
   \<and> gp_str_lookup_function not_callable (script_globals(''StringPrinter'' \<mapsto> GPStringPrinterClass))
       (Scalar (Named ''const GPString'' 8) 0x1000)
     \<noteq> Inr (Formatter \<lparr>val = Scalar (Named ''const GPString'' 8) 0x1000\<rparr>)
   \<and> gp_str_lookup_function not_callable (script_globals(''StringPrinter'' \<mapsto> GPStringPrinterClass))
       (Scalar (Pointer (Named ''GPString'' 8)) 0x1000)
     \<noteq> Inr (Formatter \<lparr>val = Scalar (Pointer (Named ''GPString'' 8)) 0x1000\<rparr>)
   \<and> gp_str_lookup_function not_callable (script_globals(''StringPrinter'' \<mapsto> GPStringPrinterClass))
       (Scalar (Named ''gpstring'' 8) 0x1000)
     \<noteq> Inr (Formatter \<lparr>val = Scalar (Named ''gpstring'' 8) 0x1000\<rparr>)
   \<and> gp_const_str_lookup_function not_callable
         (script_globals(''StringPrinter'' \<mapsto> GPStringPrinterClass))
         (Scalar (Named ''GPString'' 8) 0x1000)
     \<noteq> Inr (Formatter \<lparr>val = Scalar (Named ''GPString'' 8) 0x1000\<rparr>)
   \<and> gp_const_str_lookup_function not_callable
         (script_globals(''StringPrinter'' \<mapsto> GPStringPrinterClass))
         (Scalar (Named ''const  GPString'' 8) 0x1000)
     \<noteq> Inr (Formatter \<lparr>val = Scalar (Named ''const  GPString'' 8) 0x1000\<rparr>)"
proof -
  let ?g = "script_globals(''StringPrinter'' \<mapsto> GPStringPrinterClass)"
  have call: "and_then (resolve ?g ''StringPrinter'') (\<lambda>c. call_obj not_callable c v)
      = Inr (Formatter \<lparr>val = v\<rparr>)" for v
    by (simp add: resolve_def call_obj_def GPStringPrinter_init_def)
  show ?thesis
    using
      lookup_returns_formatter_iff [of not_callable ?g "Scalar (Named ''GPString'' 8) 0x1000"
        "\<lparr>val = Scalar (Named ''GPString'' 8) 0x1000\<rparr>"]
      lookup_returns_formatter_iff [of not_callable ?g "Scalar (Named ''const GPString'' 8) 0x1000"
        "\<lparr>val = Scalar (Named ''const GPString'' 8) 0x1000\<rparr>"]
      lookup_returns_formatter_iff [of not_callable ?g "Scalar (Pointer (Named ''GPString'' 8)) 0x1000"
        "\<lparr>val = Scalar (Pointer (Named ''GPString'' 8)) 0x1000\<rparr>"]
      lookup_returns_formatter_iff [of not_callable ?g "Scalar (Named ''gpstring'' 8) 0x1000"
        "\<lparr>val = Scalar (Named ''gpstring'' 8) 0x1000\<rparr>"]
      lookup_returns_formatter_iff [of not_callable ?g "Scalar (Named ''const  GPString'' 8) 0x1000"
        "\<lparr>val = Scalar (Named ''const  GPString'' 8) 0x1000\<rparr>"]
    by (simp add: call)
qed

text \<open>
  C5: for a value whose rendered type name is neither \<^verbatim>\<open>GPString\<close> nor
  \<^verbatim>\<open>const GPString\<close>, both lookup callbacks return \<^verbatim>\<open>None\<close>, whatever the namespace
  and the interpreter.
\<close>

theorem lookup_declines_other_types:
  assumes "type_str (value_type v) \<noteq> ''GPString''"
    and "type_str (value_type v) \<noteq> ''const GPString''"
  shows "gp_str_lookup_function ext g v = Inr PyNone
       \<and> gp_const_str_lookup_function ext g v = Inr PyNone"
  using assms by (simp add: gp_str_lookup_function_def gp_const_str_lookup_function_def)

theorem lookup_declines_other_types_witness:
  "type_str (value_type (Object (Named ''GPStringHeader'' 8) 0xFF8)) \<noteq> ''GPString''
   \<and> type_str (value_type (Object (Named ''GPStringHeader'' 8) 0xFF8)) \<noteq> ''const GPString''
   \<and> gp_str_lookup_function not_callable script_globals
        (Object (Named ''GPStringHeader'' 8) 0xFF8) = Inr PyNone
   \<and> gp_const_str_lookup_function not_callable script_globals
        (Object (Named ''GPStringHeader'' 8) 0xFF8) = Inr PyNone"
proof -
  have a: "type_str (value_type (Object (Named ''GPStringHeader'' 8) 0xFF8)) \<noteq> ''GPString''"
    by simp
  have b: "type_str (value_type (Object (Named ''GPStringHeader'' 8) 0xFF8))
      \<noteq> ''const GPString''"
    by simp
  show ?thesis
    using a b lookup_declines_other_types [OF a b, of not_callable script_globals] by simp
qed

text \<open>
  C8: the matched branch of either callback evaluates the name \<^verbatim>\<open>StringPrinter\<close>. The
  definitions of the script bind the class under the name \<^verbatim>\<open>GPStringPrinter\<close> and do
  not bind \<^verbatim>\<open>StringPrinter\<close>; so, unless the namespace had that name before the script
  ran, a lookup on a value whose type name matches raises \<^verbatim>\<open>NameError\<close> and returns no
  formatter.
\<close>

theorem matching_lookup_raises_NameError:
  assumes "g0 ''StringPrinter'' = None"
  shows "(type_str (value_type v) = ''GPString'' \<longrightarrow>
            gp_str_lookup_function ext (definitions g0) v = Inl (NameError ''StringPrinter''))
       \<and> (type_str (value_type v) = ''const GPString'' \<longrightarrow>
            gp_const_str_lookup_function ext (definitions g0) v
              = Inl (NameError ''StringPrinter''))
       \<and> definitions g0 ''GPStringPrinter'' = Some GPStringPrinterClass
       \<and> definitions g0 ''StringPrinter'' = None"
proof -
  have "resolve (definitions g0) ''StringPrinter'' = Inl (NameError ''StringPrinter'')"
    using assms by (simp add: resolve_StringPrinter_unbound definitions_StringPrinter)
  moreover have "definitions g0 ''GPStringPrinter'' = Some GPStringPrinterClass"
    by (simp add: definitions_def)
  moreover have "definitions g0 ''StringPrinter'' = None"
    using assms by (simp add: definitions_StringPrinter)
  ultimately show ?thesis
    by (simp add: gp_str_lookup_function_def gp_const_str_lookup_function_def)
qed

theorem matching_lookup_raises_NameError_witness:
  "gp_str_lookup_function not_callable (definitions Map.empty)
       (Scalar (Named ''GPString'' 8) 0x1000) = Inl (NameError ''StringPrinter'')
   \<and> gp_const_str_lookup_function not_callable (definitions Map.empty)
       (Scalar (Named ''const GPString'' 8) 0x1000) = Inl (NameError ''StringPrinter'')
   \<and> definitions Map.empty ''GPStringPrinter'' = Some GPStringPrinterClass"
proof -
  have unbound: "(Map.empty :: namespace) ''StringPrinter'' = None"
    by simp
  show ?thesis
    using
      matching_lookup_raises_NameError [OF unbound, of "Scalar (Named ''GPString'' 8) 0x1000"
        not_callable]
      matching_lookup_raises_NameError [OF unbound,
        of "Scalar (Named ''const GPString'' 8) 0x1000" not_callable]
    by simp
qed

text \<open>
  C10: which branch a lookup callback takes is a function of the rendered type name
  alone. Two values whose type names render to the same string are both declined or both
  handed to \<^verbatim>\<open>StringPrinter\<close>, whatever the values, the namespaces and the interpreters
  of the two calls are; and in a namespace that does not bind \<^verbatim>\<open>StringPrinter\<close>, as the
  script leaves it, the two calls have the same result.
\<close>

theorem lookup_depends_only_on_type_name:
  assumes "type_str (value_type v1) = type_str (value_type v2)"
  shows "((gp_str_lookup_function ext g v1 = Inr PyNone
            \<and> gp_str_lookup_function ext' g' v2 = Inr PyNone)
          \<or> (gp_str_lookup_function ext g v1
                = and_then (resolve g ''StringPrinter'') (\<lambda>c. call_obj ext c v1)
            \<and> gp_str_lookup_function ext' g' v2
                = and_then (resolve g' ''StringPrinter'') (\<lambda>c. call_obj ext' c v2)))
       \<and> ((gp_const_str_lookup_function ext g v1 = Inr PyNone
            \<and> gp_const_str_lookup_function ext' g' v2 = Inr PyNone)
          \<or> (gp_const_str_lookup_function ext g v1
                = and_then (resolve g ''StringPrinter'') (\<lambda>c. call_obj ext c v1)
            \<and> gp_const_str_lookup_function ext' g' v2
                = and_then (resolve g' ''StringPrinter'') (\<lambda>c. call_obj ext' c v2)))
       \<and> (g ''StringPrinter'' = None \<and> g' ''StringPrinter'' = None \<longrightarrow>
            gp_str_lookup_function ext g v1 = gp_str_lookup_function ext' g' v2
          \<and> gp_const_str_lookup_function ext g v1 = gp_const_str_lookup_function ext' g' v2)"
  using assms
  by (simp add: gp_str_lookup_function_def gp_const_str_lookup_function_def
      resolve_StringPrinter_unbound)

theorem lookup_depends_only_on_type_name_witness:
  "type_str (value_type (Scalar (Named ''GPString'' 8) 0x1000))
     = type_str (value_type (Object (Named ''GPString'' 16) 0x2000))
   \<and> gp_str_lookup_function not_callable script_globals (Scalar (Named ''GPString'' 8) 0x1000)
     = gp_str_lookup_function not_callable (script_globals(''other'' \<mapsto> Foreign 0))
         (Object (Named ''GPString'' 16) 0x2000)
   \<and> gp_const_str_lookup_function not_callable script_globals
        (Scalar (Named ''GPString'' 8) 0x1000)
     = gp_const_str_lookup_function not_callable (script_globals(''other'' \<mapsto> Foreign 0))
        (Object (Named ''GPString'' 16) 0x2000)"
proof -
  have same: "type_str (value_type (Scalar (Named ''GPString'' 8) 0x1000))
     = type_str (value_type (Object (Named ''GPString'' 16) 0x2000))"
    by simp
  have unbound: "script_globals ''StringPrinter'' = None"
    by (simp add: script_globals_def definitions_def)
  have unbound': "(script_globals(''other'' \<mapsto> Foreign 0)) ''StringPrinter'' = None"
    by (simp add: script_globals_def definitions_def)
  show ?thesis
    using same unbound unbound'
      lookup_depends_only_on_type_name [OF same, of not_callable script_globals not_callable
        "script_globals(''other'' \<mapsto> Foreign 0)"]
    by simp
qed

subsection \<open>Loading the script\<close>

text \<open>
  C3: lines 28 and 29 name \<^verbatim>\<open>str_lookup_function\<close> and \<^verbatim>\<open>const_str_lookup_function\<close>.
  The definitions of the script bind \<^verbatim>\<open>gp_str_lookup_function\<close> and
  \<^verbatim>\<open>gp_const_str_lookup_function\<close> and, from an empty module, exactly four names, none
  of them one of the two registered ones. Unless the namespace had them before the script
  ran, each of the two registration statements, evaluated after the definitions, raises
  \<^verbatim>\<open>NameError\<close> for its name and changes nothing.
\<close>

theorem registration_names_undefined:
  assumes "globals s ''str_lookup_function'' = None"
    and "globals s ''const_str_lookup_function'' = None"
  shows "register ''str_lookup_function'' (s\<lparr>globals := definitions (globals s)\<rparr>)
           = Inl (NameError ''str_lookup_function'', s\<lparr>globals := definitions (globals s)\<rparr>)
       \<and> register ''const_str_lookup_function'' (s\<lparr>globals := definitions (globals s)\<rparr>)
           = Inl (NameError ''const_str_lookup_function'',
                  s\<lparr>globals := definitions (globals s)\<rparr>)
       \<and> definitions (globals s) ''gp_str_lookup_function'' = Some GpStrLookupFunction
       \<and> definitions (globals s) ''gp_const_str_lookup_function''
           = Some GpConstStrLookupFunction
       \<and> dom (definitions Map.empty) =
           {''gdb'', ''GPStringPrinter'', ''gp_str_lookup_function'',
            ''gp_const_str_lookup_function''}"
proof -
  let ?s1 = "s\<lparr>globals := definitions (globals s)\<rparr>"
  have gdb: "globals ?s1 ''gdb'' = Some GdbModule"
    by (simp add: definitions_def)
  have a: "globals ?s1 ''str_lookup_function'' = None"
    using assms(1) by (simp add: definitions_def)
  have b: "globals ?s1 ''const_str_lookup_function'' = None"
    using assms(2) by (simp add: definitions_def)
  have "register ''str_lookup_function'' ?s1 = Inl (NameError ''str_lookup_function'', ?s1)"
    by (rule register_unbound [OF gdb a not_builtin_str_lookup_function])
  moreover have "register ''const_str_lookup_function'' ?s1
      = Inl (NameError ''const_str_lookup_function'', ?s1)"
    by (rule register_unbound [OF gdb b not_builtin_const_str_lookup_function])
  moreover have "definitions (globals s) ''gp_str_lookup_function'' = Some GpStrLookupFunction"
    by (simp add: definitions_def)
  moreover have "definitions (globals s) ''gp_const_str_lookup_function''
      = Some GpConstStrLookupFunction"
    by (simp add: definitions_def)
  moreover have "dom (definitions Map.empty) =
           {''gdb'', ''GPStringPrinter'', ''gp_str_lookup_function'',
            ''gp_const_str_lookup_function''}"
    by (simp add: dom_definitions)
  ultimately show ?thesis by simp
qed

theorem registration_names_undefined_witness:
  "register ''str_lookup_function'' \<lparr>globals = definitions Map.empty, pretty_printers = []\<rparr>
     = Inl (NameError ''str_lookup_function'',
            \<lparr>globals = definitions Map.empty, pretty_printers = []\<rparr>)
   \<and> register ''const_str_lookup_function''
       \<lparr>globals = definitions Map.empty, pretty_printers = []\<rparr>
     = Inl (NameError ''const_str_lookup_function'',
            \<lparr>globals = definitions Map.empty, pretty_printers = []\<rparr>)"
proof -
  let ?s = "\<lparr>globals = Map.empty, pretty_printers = []\<rparr> :: session"
  have a: "globals ?s ''str_lookup_function'' = None"
    by simp
  have b: "globals ?s ''const_str_lookup_function'' = None"
    by simp
  show ?thesis
    using registration_names_undefined [OF a b] by simp
qed

text \<open>
  C2: what loading the script does to the host's list of pretty-printers. From an empty
  module namespace the script stops at line 28 with \<^verbatim>\<open>NameError\<close>: the list is the one
  it was before, and line 29 is not reached.
\<close>

theorem load_script_fails:
  "load_script \<lparr>globals = Map.empty, pretty_printers = ps\<rparr>
     = Inl (NameError ''str_lookup_function'',
            \<lparr>globals = definitions Map.empty, pretty_printers = ps\<rparr>)"
proof -
  let ?s = "\<lparr>globals = Map.empty, pretty_printers = ps\<rparr>"
  have "register ''str_lookup_function'' (?s\<lparr>globals := definitions (globals ?s)\<rparr>)
      = Inl (NameError ''str_lookup_function'', ?s\<lparr>globals := definitions (globals ?s)\<rparr>)"
    by (rule register_unbound) (simp_all add: definitions_def not_builtin_str_lookup_function)
  then show ?thesis by (simp add: load_script_def)
qed

subsection \<open>The formatter\<close>

text \<open>
  C1: let the value handle hold the address \<open>a\<close>, let the header record (of the type
  the host knows as \<^verbatim>\<open>GPStringHeader\<close>) lie in memory immediately before \<open>a\<close> with
  length field \<open>L\<close>, and let the \<open>L\<close> bytes at \<open>a\<close> be valid UTF-8 that decodes to
  the code points \<open>cps\<close>. Then \<open>to_string\<close> returns a double quote, the
  \<^verbatim>\<open>unicode_escape\<close> form of \<open>cps\<close>, a double quote, a comma and a space, and the
  default text of the header record.
\<close>

theorem to_string_correct:
  assumes "val self = Scalar ty a"
    and "lookup_type h ''GPStringHeader'' = Inr T"
    and "lookup_type h ''char'' = Inr C" and "sizeof C = 1"
    and "read_memory (memory h) (a - of_nat (sizeof T)) (sizeof T) = Inr hdr"
    and "field_of h T hdr ''length'' = Inr L"
    and "read_memory (memory h) a L = Inr bs"
    and "utf8_decode (map unat bs) = Some cps"
    and "format_object h T hdr = Inr text"
  shows "to_string h self
           = Inr ([CHR 0x22] @ unicode_escape cps @ [CHR 0x22] @ '', '' @ text)"
  using assms by (simp add: to_string_pointer)

text \<open>
  The payload \<^verbatim>\<open>h\<close>, \<^verbatim>\<open>e\<close> with acute accent (two bytes), newline: the formatter
  returns \<^verbatim>\<open>"h\xe9\n", {...}\<close>.
\<close>

theorem to_string_correct_witness:
  "to_string (example_host [0x68, 0xC3, 0xA9, 0x0A]) example_printer
     = Inr ([CHR 0x22] @ ''h'' @ [CHR 0x5C] @ ''xe9'' @ [CHR 0x5C] @ ''n'' @ [CHR 0x22]
            @ '', {...}'')"
proof -
  let ?h = "example_host [0x68, 0xC3, 0xA9, 0x0A]"
  let ?T = "Named ''GPStringHeader'' 8"
  let ?C = "Named ''char'' 1"
  have v: "val example_printer = Scalar (Named ''GPString'' 8) 0x1000"
    by (simp add: example_printer_def GPStringPrinter_init_def)
  have t: "lookup_type ?h ''GPStringHeader'' = Inr ?T"
    by (simp add: example_host_def)
  have c: "lookup_type ?h ''char'' = Inr ?C"
    by (simp add: example_host_def)
  have s: "sizeof ?C = 1"
    by simp
  have hdr: "read_memory (memory ?h) (0x1000 - of_nat (sizeof ?T)) (sizeof ?T)
      = Inr [4, 0, 0, 0, 0, 0, 0, 0]"
    by code_simp
  have len: "field_of ?h ?T [4, 0, 0, 0, 0, 0, 0, 0] ''length'' = Inr 4"
    by (simp add: example_host_def)
  have payload: "read_memory (memory ?h) 0x1000 4 = Inr [0x68, 0xC3, 0xA9, 0x0A]"
    by code_simp
  have dec: "utf8_decode (map unat [0x68, 0xC3, 0xA9, 0x0A :: byte]) = Some [0x68, 0xE9, 0x0A]"
    by code_simp
  have shown: "format_object ?h ?T [4, 0, 0, 0, 0, 0, 0, 0] = Inr ''{...}''"
    by (simp add: example_host_def)
  have esc: "unicode_escape [0x68, 0xE9, 0x0A] = ''h'' @ [CHR 0x5C] @ ''xe9'' @ [CHR 0x5C] @ ''n''"
    by code_simp
  show ?thesis
    using to_string_correct [OF v t c s hdr len payload dec shown] by (simp add: esc)
qed

text \<open>
  C6: the header object that the formatter reads is the one found by casting the value
  to a pointer to the header type and stepping back one element: it lies at
  \<open>a - sizeof T\<close>. The original value, cast to a character pointer, still holds \<open>a\<close>,
  and the text is decoded from exactly the \<open>L\<close> bytes at \<open>a\<close>, \<open>L\<close> being the length
  field. So the result depends on the memory only through the \<open>sizeof T\<close> bytes before
  \<open>a\<close> and the \<open>L\<close> bytes from \<open>a\<close> on.
\<close>

theorem to_string_reads_header_before_and_payload_at:
  assumes "val self = Scalar ty a"
    and "lookup_type h ''GPStringHeader'' = Inr T"
    and "lookup_type h ''char'' = Inr C" and "sizeof C = 1"
    and "read_memory (memory h) (a - of_nat (sizeof T)) (sizeof T) = Inr hdr"
    and "field_of h T hdr ''length'' = Inr L"
  shows "and_then (cast (val self) (pointer T)) (\<lambda>p. and_then (value_sub p 1) dereference)
           = Inr (Object T (a - of_nat (sizeof T)))
       \<and> cast (val self) (pointer C) = Inr (Scalar (Pointer C) a)
       \<and> to_string h self =
           and_then (read_memory (memory h) a L) (\<lambda>bs.
             case utf8_decode (map unat bs) of
               None \<Rightarrow> Inl UnicodeDecodeError
             | Some cps \<Rightarrow>
                 and_then (format_object h T hdr) (\<lambda>text.
                   Inr ([CHR 0x22] @ unicode_escape cps @ [CHR 0x22] @ '', '' @ text)))
       \<and> (\<forall>m'. (\<forall>i. i < sizeof T \<longrightarrow> m' (a - of_nat (sizeof T) + of_nat i)
                                  = memory h (a - of_nat (sizeof T) + of_nat i))
               \<and> (\<forall>i. i < L \<longrightarrow> m' (a + of_nat i) = memory h (a + of_nat i))
               \<longrightarrow> to_string (h\<lparr>memory := m'\<rparr>) self = to_string h self)"
proof (intro conjI allI impI)
  show "and_then (cast (val self) (pointer T)) (\<lambda>p. and_then (value_sub p 1) dereference)
           = Inr (Object T (a - of_nat (sizeof T)))"
    using assms(1) by (simp add: pointer_def)
  show "cast (val self) (pointer C) = Inr (Scalar (Pointer C) a)"
    using assms(1) by (simp add: pointer_def)
  show "to_string h self =
           and_then (read_memory (memory h) a L) (\<lambda>bs.
             case utf8_decode (map unat bs) of
               None \<Rightarrow> Inl UnicodeDecodeError
             | Some cps \<Rightarrow>
                 and_then (format_object h T hdr) (\<lambda>text.
                   Inr ([CHR 0x22] @ unicode_escape cps @ [CHR 0x22] @ '', '' @ text)))"
    by (rule to_string_fetched [OF assms])
next
  fix m'
  assume agree: "(\<forall>i. i < sizeof T \<longrightarrow> m' (a - of_nat (sizeof T) + of_nat i)
                                  = memory h (a - of_nat (sizeof T) + of_nat i))
               \<and> (\<forall>i. i < L \<longrightarrow> m' (a + of_nat i) = memory h (a + of_nat i))"
  let ?h' = "h\<lparr>memory := m'\<rparr>"
  have hdr': "read_memory (memory ?h') (a - of_nat (sizeof T)) (sizeof T) = Inr hdr"
    using agree assms(5) read_memory_agree [of "sizeof T" m' "a - of_nat (sizeof T)" "memory h"]
    by simp
  have payload: "read_memory m' a L = read_memory (memory h) a L"
    using agree read_memory_agree [of L m' a "memory h"] by simp
  have "to_string ?h' self =
     and_then (read_memory (memory ?h') a L) (\<lambda>bs.
       case utf8_decode (map unat bs) of
         None \<Rightarrow> Inl UnicodeDecodeError
       | Some cps \<Rightarrow>
           and_then (format_object ?h' T hdr) (\<lambda>text.
             Inr ([CHR 0x22] @ unicode_escape cps @ [CHR 0x22] @ '', '' @ text)))"
    by (rule to_string_fetched [OF assms(1) _ _ assms(4) hdr']) (simp_all add: assms)
  then show "to_string ?h' self = to_string h self"
    by (simp add: payload to_string_fetched [OF assms] cong: option.case_cong)
qed

theorem to_string_reads_header_before_and_payload_at_witness:
  "and_then (cast (val example_printer) (pointer (Named ''GPStringHeader'' 8)))
       (\<lambda>p. and_then (value_sub p 1) dereference)
     = Inr (Object (Named ''GPStringHeader'' 8) 0xFF8)
   \<and> to_string
       (example_host [0x61, 0x62, 0x63]
          \<lparr>memory := (memory (example_host [0x61, 0x62, 0x63]))(0x1003 \<mapsto> 0x7A, 0xFF7 \<mapsto> 0x55)\<rparr>)
       example_printer
     = to_string (example_host [0x61, 0x62, 0x63]) example_printer"
proof -
  let ?h = "example_host [0x61, 0x62, 0x63]"
  let ?T = "Named ''GPStringHeader'' 8"
  let ?C = "Named ''char'' 1"
  let ?m' = "(memory ?h)(0x1003 \<mapsto> 0x7A, 0xFF7 \<mapsto> 0x55)"
  have v: "val example_printer = Scalar (Named ''GPString'' 8) 0x1000"
    by (simp add: example_printer_def GPStringPrinter_init_def)
  have t: "lookup_type ?h ''GPStringHeader'' = Inr ?T"
    by (simp add: example_host_def)
  have c: "lookup_type ?h ''char'' = Inr ?C"
    by (simp add: example_host_def)
  have s: "sizeof ?C = 1"
    by simp
  have hdr: "read_memory (memory ?h) (0x1000 - of_nat (sizeof ?T)) (sizeof ?T)
      = Inr [3, 0, 0, 0, 0, 0, 0, 0]"
    by code_simp
  have len: "field_of ?h ?T [3, 0, 0, 0, 0, 0, 0, 0] ''length'' = Inr 3"
    by (simp add: example_host_def)
  have before: "?m' (0x1000 - of_nat (sizeof ?T) + of_nat i)
      = memory ?h (0x1000 - of_nat (sizeof ?T) + of_nat i)" if "i < sizeof ?T" for i
  proof -
    from that have "i = 0 \<or> i = 1 \<or> i = 2 \<or> i = 3 \<or> i = 4 \<or> i = 5 \<or> i = 6 \<or> i = 7"
      by (simp) arith
    then show ?thesis
      by (elim disjE) simp_all
  qed
  have at: "?m' (0x1000 + of_nat i) = memory ?h (0x1000 + of_nat i)" if "i < 3" for i
  proof -
    from that have "i = 0 \<or> i = 1 \<or> i = 2"
      by arith
    then show ?thesis
      by (elim disjE) simp_all
  qed
  show ?thesis
    using to_string_reads_header_before_and_payload_at [OF v t c s hdr len] before at
    by simp
qed

text \<open>
  C7: the formatter handles no fault. Following the calls in their order: if the lookup
  of the header type fails, if the cast fails, if the lookup of \<^verbatim>\<open>char\<close> fails, if the
  header cannot be read from memory, if it has no length field, if the string cannot be
  read (a memory fault, or bytes that are not UTF-8), or if the header has no text, then
  \<open>to_string\<close> returns that fault and nothing else.
\<close>

theorem to_string_propagates_faults:
  "(lookup_type h ''GPStringHeader'' = Inl e \<longrightarrow> to_string h self = Inl e)
   \<and> (\<forall>T. lookup_type h ''GPStringHeader'' = Inr T \<longrightarrow>
        (cast (val self) (pointer T) = Inl e \<longrightarrow> to_string h self = Inl e)
      \<and> (\<forall>ty a. val self = Scalar ty a \<longrightarrow>
           (lookup_type h ''char'' = Inl e \<longrightarrow> to_string h self = Inl e)
         \<and> (\<forall>C. lookup_type h ''char'' = Inr C \<longrightarrow>
              (read_memory (memory h) (a - of_nat (sizeof T)) (sizeof T) = Inl e
                 \<longrightarrow> to_string h self = Inl e)
            \<and> (\<forall>hdr. read_memory (memory h) (a - of_nat (sizeof T)) (sizeof T) = Inr hdr \<longrightarrow>
                 (field_of h T hdr ''length'' = Inl e \<longrightarrow> to_string h self = Inl e)
               \<and> (\<forall>L. field_of h T hdr ''length'' = Inr L \<longrightarrow>
                    (value_string h (Scalar (Pointer C) a) L = Inl e
                       \<longrightarrow> to_string h self = Inl e)
                  \<and> (sizeof C = 1 \<and> read_memory (memory h) a L = Inl e
                       \<longrightarrow> to_string h self = Inl e)
                  \<and> (\<forall>bs. sizeof C = 1 \<and> read_memory (memory h) a L = Inr bs
                           \<and> utf8_decode (map unat bs) = None
                       \<longrightarrow> to_string h self = Inl UnicodeDecodeError)
                  \<and> (\<forall>cps. value_string h (Scalar (Pointer C) a) L = Inr cps
                            \<and> format_object h T hdr = Inl e
                       \<longrightarrow> to_string h self = Inl e))))))"
  by (auto simp: to_string_pointer) (simp_all add: to_string_def)

theorem to_string_propagates_faults_witness:
  "to_string (example_host [0x61]\<lparr>lookup_type := \<lambda>n. Inl (GdbError ''No symbol table is loaded.'')\<rparr>)
       example_printer
     = Inl (GdbError ''No symbol table is loaded.'')
   \<and> to_string (example_host [0x61]\<lparr>memory := Map.empty\<rparr>) example_printer
     = Inl (MemoryError 0xFF8)
   \<and> to_string (example_host [0x61]\<lparr>memory := place 0xFF8 [5, 0, 0, 0, 0, 0, 0, 0, 0x61]\<rparr>)
       example_printer
     = Inl (MemoryError 0x1001)
   \<and> to_string (example_host [0xFF]) example_printer = Inl UnicodeDecodeError"
proof -
  let ?T = "Named ''GPStringHeader'' 8"
  let ?C = "Named ''char'' 1"
  let ?h1 = "example_host [0x61]\<lparr>lookup_type := \<lambda>n. Inl (GdbError ''No symbol table is loaded.'')\<rparr>"
  let ?h2 = "example_host [0x61]\<lparr>memory := Map.empty\<rparr>"
  let ?h3 = "example_host [0x61]\<lparr>memory := place 0xFF8 [5, 0, 0, 0, 0, 0, 0, 0, 0x61]\<rparr>"
  let ?h4 = "example_host [0xFF]"
  have v: "val example_printer = Scalar (Named ''GPString'' 8) 0x1000"
    by (simp add: example_printer_def GPStringPrinter_init_def)
  have one: "to_string ?h1 example_printer = Inl (GdbError ''No symbol table is loaded.'')"
    using to_string_propagates_faults [of ?h1 "GdbError ''No symbol table is loaded.''"
        example_printer]
    by simp
  have t2: "lookup_type ?h2 ''GPStringHeader'' = Inr ?T"
    and c2: "lookup_type ?h2 ''char'' = Inr ?C"
    by (simp_all add: example_host_def)
  have r2: "read_memory (memory ?h2) (0x1000 - of_nat (sizeof ?T)) (sizeof ?T)
      = Inl (MemoryError 0xFF8)"
    by code_simp
  have two: "to_string ?h2 example_printer = Inl (MemoryError 0xFF8)"
    by (rule to_string_propagates_faults [THEN conjunct2, rule_format, OF t2,
          THEN conjunct2, rule_format, OF v, THEN conjunct2, rule_format, OF c2,
          THEN conjunct1, rule_format, OF r2])
  have t3: "lookup_type ?h3 ''GPStringHeader'' = Inr ?T"
    and c3: "lookup_type ?h3 ''char'' = Inr ?C"
    by (simp_all add: example_host_def)
  have r3: "read_memory (memory ?h3) (0x1000 - of_nat (sizeof ?T)) (sizeof ?T)
      = Inr [5, 0, 0, 0, 0, 0, 0, 0]"
    by code_simp
  have l3: "field_of ?h3 ?T [5, 0, 0, 0, 0, 0, 0, 0] ''length'' = Inr 5"
    by (simp add: example_host_def)
  have p3: "sizeof ?C = 1 \<and> read_memory (memory ?h3) 0x1000 5 = Inl (MemoryError 0x1001)"
    by code_simp
  have three: "to_string ?h3 example_printer = Inl (MemoryError 0x1001)"
    by (rule to_string_propagates_faults [THEN conjunct2, rule_format, OF t3,
          THEN conjunct2, rule_format, OF v, THEN conjunct2, rule_format, OF c3,
          THEN conjunct2, rule_format, OF r3, THEN conjunct2, rule_format, OF l3,
          THEN conjunct2, THEN conjunct1, rule_format, OF p3])
  have t4: "lookup_type ?h4 ''GPStringHeader'' = Inr ?T"
    and c4: "lookup_type ?h4 ''char'' = Inr ?C"
    by (simp_all add: example_host_def)
  have r4: "read_memory (memory ?h4) (0x1000 - of_nat (sizeof ?T)) (sizeof ?T)
      = Inr [1, 0, 0, 0, 0, 0, 0, 0]"
    by code_simp
  have l4: "field_of ?h4 ?T [1, 0, 0, 0, 0, 0, 0, 0] ''length'' = Inr 1"
    by (simp add: example_host_def)
  have p4: "sizeof ?C = 1 \<and> read_memory (memory ?h4) 0x1000 1 = Inr [0xFF]
      \<and> utf8_decode (map unat [0xFF :: byte]) = None"
    by code_simp
  have four: "to_string ?h4 example_printer = Inl UnicodeDecodeError"
    by (rule to_string_propagates_faults [THEN conjunct2, rule_format, OF t4,
          THEN conjunct2, rule_format, OF v, THEN conjunct2, rule_format, OF c4,
          THEN conjunct2, rule_format, OF r4, THEN conjunct2, rule_format, OF l4,
          THEN conjunct2, THEN conjunct2, THEN conjunct1, rule_format, OF p4])
  from one two three four show ?thesis by simp
qed

text \<open>
  C9: the \<^verbatim>\<open>unicode_escape\<close> codec copies the double quote. When the payload contains
  one, the text between the opening quote and the closing quote of the output contains
  a bare double quote: the output is quote, escaped text before, quote, escaped text
  after, quote, comma, space, header text.
\<close>

theorem to_string_leaves_quote_unescaped:
  assumes "val self = Scalar ty a"
    and "lookup_type h ''GPStringHeader'' = Inr T"
    and "lookup_type h ''char'' = Inr C" and "sizeof C = 1"
    and "read_memory (memory h) (a - of_nat (sizeof T)) (sizeof T) = Inr hdr"
    and "field_of h T hdr ''length'' = Inr L"
    and "read_memory (memory h) a L = Inr bs"
    and "utf8_decode (map unat bs) = Some (before @ 0x22 # after)"
    and "format_object h T hdr = Inr text"
  shows "escape_char 0x22 = [CHR 0x22]
       \<and> unicode_escape (before @ 0x22 # after)
           = unicode_escape before @ [CHR 0x22] @ unicode_escape after
       \<and> to_string h self
           = Inr ([CHR 0x22] @ unicode_escape before @ [CHR 0x22] @ unicode_escape after
                  @ [CHR 0x22] @ '', '' @ text)"
  using assms
  by (simp add: to_string_fetched [OF assms(1-6)] unicode_escape_def escape_char_quote)

text \<open>The payload \<^verbatim>\<open>a"b\<close> is shown as \<^verbatim>\<open>"a"b", {...}\<close>.\<close>

theorem to_string_leaves_quote_unescaped_witness:
  "to_string (example_host [0x61, 0x22, 0x62]) example_printer
     = Inr ([CHR 0x22] @ ''a'' @ [CHR 0x22] @ ''b'' @ [CHR 0x22] @ '', {...}'')"
proof -
  let ?h = "example_host [0x61, 0x22, 0x62]"
  let ?T = "Named ''GPStringHeader'' 8"
  let ?C = "Named ''char'' 1"
  have v: "val example_printer = Scalar (Named ''GPString'' 8) 0x1000"
    by (simp add: example_printer_def GPStringPrinter_init_def)
  have t: "lookup_type ?h ''GPStringHeader'' = Inr ?T"
    by (simp add: example_host_def)
  have c: "lookup_type ?h ''char'' = Inr ?C"
    by (simp add: example_host_def)
  have s: "sizeof ?C = 1"
    by simp
  have hdr: "read_memory (memory ?h) (0x1000 - of_nat (sizeof ?T)) (sizeof ?T)
      = Inr [3, 0, 0, 0, 0, 0, 0, 0]"
    by code_simp
  have len: "field_of ?h ?T [3, 0, 0, 0, 0, 0, 0, 0] ''length'' = Inr 3"
    by (simp add: example_host_def)
  have payload: "read_memory (memory ?h) 0x1000 3 = Inr [0x61, 0x22, 0x62]"
    by code_simp
  have dec: "utf8_decode (map unat [0x61, 0x22, 0x62 :: byte]) = Some ([0x61] @ 0x22 # [0x62])"
    by code_simp
  have shown: "format_object ?h ?T [3, 0, 0, 0, 0, 0, 0, 0] = Inr ''{...}''"
    by (simp add: example_host_def)
  have esc: "unicode_escape [0x61] = ''a''" "unicode_escape [0x62] = ''b''"
    by code_simp+
  show ?thesis
    using to_string_leaves_quote_unescaped [OF v t c s hdr len payload dec shown]
    by (simp add: esc)
qed

subsection \<open>The text functions\<close>

text \<open>
  X1: the decoder inverts the UTF-8 encoding: the encoding of any list of scalar values
  decodes to that list.
\<close>

theorem utf8_decode_encode:
  "list_all is_scalar_value cps \<Longrightarrow> utf8_decode (utf8_encode cps) = Some cps"
proof (induction cps)
  case Nil
  then show ?case by (simp add: utf8_encode_def)
next
  case (Cons cp cps)
  then have "utf8_decode (utf8_encode cps) = Some cps" by simp
  moreover have "is_scalar_value cp" using Cons.prems by simp
  ultimately show ?case
    using decode_encode_char [of cp "utf8_encode cps"] by (simp add: utf8_encode_def)
qed

theorem utf8_decode_encode_witness:
  "list_all is_scalar_value [0x68, 0xE9, 0x20AC, 0x1F600]
   \<and> utf8_encode [0x68, 0xE9, 0x20AC, 0x1F600]
       = [0x68, 0xC3, 0xA9, 0xE2, 0x82, 0xAC, 0xF0, 0x9F, 0x98, 0x80]
   \<and> utf8_decode [0x68, 0xC3, 0xA9, 0xE2, 0x82, 0xAC, 0xF0, 0x9F, 0x98, 0x80]
       = Some [0x68, 0xE9, 0x20AC, 0x1F600]"
proof -
  have valid: "list_all is_scalar_value [0x68, 0xE9, 0x20AC, 0x1F600]"
    by (simp add: is_scalar_value_def)
  have enc: "utf8_encode [0x68, 0xE9, 0x20AC, 0x1F600]
       = [0x68, 0xC3, 0xA9, 0xE2, 0x82, 0xAC, 0xF0, 0x9F, 0x98, 0x80]"
    by (simp add: utf8_encode_def utf8_encode_char_def)
  show ?thesis
    using valid enc utf8_decode_encode [OF valid] by simp
qed

text \<open>
  X2: the escaped text consists of printable ASCII characters only: every control
  character and every character beyond ASCII has been replaced by an escape sequence.
\<close>

theorem unicode_escape_printable: "list_all printable_ascii (unicode_escape cps)"
  by (induction cps) (simp_all add: unicode_escape_def escape_char_printable)

text \<open>
  X3: the formatter on an encoded text. When the \<open>L\<close> bytes at the address of the value
  are the UTF-8 encoding of a text of scalar values, the formatter shows that text,
  escaped and quoted, followed by the header.
\<close>

theorem to_string_of_encoded_text:
  assumes "val self = Scalar ty a"
    and "lookup_type h ''GPStringHeader'' = Inr T"
    and "lookup_type h ''char'' = Inr C" and "sizeof C = 1"
    and "read_memory (memory h) (a - of_nat (sizeof T)) (sizeof T) = Inr hdr"
    and "field_of h T hdr ''length'' = Inr L"
    and "read_memory (memory h) a L = Inr bs"
    and "map unat bs = utf8_encode cps" and "list_all is_scalar_value cps"
    and "format_object h T hdr = Inr text"
  shows "to_string h self
           = Inr ([CHR 0x22] @ unicode_escape cps @ [CHR 0x22] @ '', '' @ text)"
proof -
  have "utf8_decode (map unat bs) = Some cps"
    using assms(8) decode_encode_list [OF assms(9)] by simp
  with assms show ?thesis
    by (simp add: to_string_fetched [OF assms(1-6)])
qed

theorem to_string_of_encoded_text_witness:
  "to_string (example_host [0xE2, 0x82, 0xAC, 0x09]) example_printer
     = Inr ([CHR 0x22] @ [CHR 0x5C] @ ''u20ac'' @ [CHR 0x5C] @ ''t'' @ [CHR 0x22]
            @ '', {...}'')"
proof -
  let ?h = "example_host [0xE2, 0x82, 0xAC, 0x09]"
  let ?T = "Named ''GPStringHeader'' 8"
  let ?C = "Named ''char'' 1"
  have v: "val example_printer = Scalar (Named ''GPString'' 8) 0x1000"
    by (simp add: example_printer_def GPStringPrinter_init_def)
  have t: "lookup_type ?h ''GPStringHeader'' = Inr ?T"
    by (simp add: example_host_def)
  have c: "lookup_type ?h ''char'' = Inr ?C"
    by (simp add: example_host_def)
  have s: "sizeof ?C = 1"
    by simp
  have hdr: "read_memory (memory ?h) (0x1000 - of_nat (sizeof ?T)) (sizeof ?T)
      = Inr [4, 0, 0, 0, 0, 0, 0, 0]"
    by code_simp
  have len: "field_of ?h ?T [4, 0, 0, 0, 0, 0, 0, 0] ''length'' = Inr 4"
    by (simp add: example_host_def)
  have payload: "read_memory (memory ?h) 0x1000 4 = Inr [0xE2, 0x82, 0xAC, 0x09]"
    by code_simp
  have enc: "map unat [0xE2, 0x82, 0xAC, 0x09 :: byte] = utf8_encode [0x20AC, 0x09]"
    by (simp add: utf8_encode_def utf8_encode_char_def)
  have valid: "list_all is_scalar_value [0x20AC, 0x09]"
    by (simp add: is_scalar_value_def)
  have shown: "format_object ?h ?T [4, 0, 0, 0, 0, 0, 0, 0] = Inr ''{...}''"
    by (simp add: example_host_def)
  have esc: "unicode_escape [0x20AC, 0x09] = [CHR 0x5C] @ ''u20ac'' @ [CHR 0x5C] @ ''t''"
    by (simp add: unicode_escape_def escape_char_def hex_4 hexdigit_def)
  show ?thesis
    using to_string_of_encoded_text [OF v t c s hdr len payload enc valid shown]
    by (simp add: esc)
qed

end
